theory Spec2Isabelle
  imports Complex_Main
begin

section \<open>JavaScript values\<close>

text \<open>
  The sagas of \<^verbatim>\<open>plugins/Wallet/js/sagas/wallet.js\<close> read untyped JSON replies of the
  daemon and untyped fields of Redux actions. A value is one of JavaScript's primitives,
  a plain data object (its own properties in order), or an \<^verbatim>\<open>Error\<close> instance
  (its name and its message). Numbers are the integer-valued ones.
\<close>

datatype jsval =
    JUndefined
  | JNull
  | JBool bool
  | JNum int
  | JStr string
  | JObj "(string \<times> jsval) list"
  | JError string string

text \<open>\<^verbatim>\<open>!v\<close>, \<^verbatim>\<open>if (v)\<close>: JavaScript's ToBoolean.\<close>

fun truthy :: "jsval \<Rightarrow> bool" where
  "truthy JUndefined = False"
| "truthy JNull = False"
| "truthy (JBool b) = b"
| "truthy (JNum n) = (n \<noteq> 0)"
| "truthy (JStr s) = (s \<noteq> [])"
| "truthy (JObj kvs) = True"
| "truthy (JError n m) = True"

fun nullish :: "jsval \<Rightarrow> bool" where
  "nullish JUndefined = True"
| "nullish JNull = True"
| "nullish v = False"

text \<open>Decimal digits of a natural number, as \<^verbatim>\<open>Number.prototype.toString\<close> prints them.\<close>

definition digit_char :: "nat \<Rightarrow> char" where
  "digit_char d = ''0123456789'' ! (d mod 10)"

fun show_nat :: "nat \<Rightarrow> string" where
  "show_nat n = (if n < 10 then [digit_char n] else show_nat (n div 10) @ [digit_char (n mod 10)])"

declare show_nat.simps [simp del]

definition show_int :: "int \<Rightarrow> string" where
  "show_int i = (if i < 0 then CHR ''-'' # show_nat (nat (- i)) else show_nat (nat i))"

text \<open>
  ToString, which \<^verbatim>\<open>'...' + v\<close> applies to \<^verbatim>\<open>v\<close>. A plain object prints as
  \<^verbatim>\<open>[object Object]\<close>, an \<^verbatim>\<open>Error\<close> as \<^verbatim>\<open>name: message\<close>
  (\<^verbatim>\<open>Error.prototype.toString\<close>).
\<close>

fun js_toString :: "jsval \<Rightarrow> string" where
  "js_toString JUndefined = ''undefined''"
| "js_toString JNull = ''null''"
| "js_toString (JBool b) = (if b then ''true'' else ''false'')"
| "js_toString (JNum n) = show_int n"
| "js_toString (JStr s) = s"
| "js_toString (JObj kvs) = ''[object Object]''"
| "js_toString (JError n m) = (if m = [] then n else if n = [] then m else n @ '': '' @ m)"

definition TypeError :: "string \<Rightarrow> jsval" where
  "TypeError m = JError ''TypeError'' m"

text \<open>
  The property read \<^verbatim>\<open>v.k\<close>. On \<^verbatim>\<open>undefined\<close> and \<^verbatim>\<open>null\<close> it throws a
  TypeError (\<open>Inl\<close>); a property that is absent reads as \<^verbatim>\<open>undefined\<close>. The sagas
  read no property that a boolean, a number or a string has.
\<close>

fun get :: "jsval \<Rightarrow> string \<Rightarrow> jsval + jsval" where
  "get JUndefined k = Inl (TypeError (''Cannot read property '' @ k @ '' of undefined''))"
| "get JNull k = Inl (TypeError (''Cannot read property '' @ k @ '' of null''))"
| "get (JObj kvs) k = Inr (case map_of kvs k of None \<Rightarrow> JUndefined | Some v \<Rightarrow> v)"
| "get (JError n m) k =
     Inr (if k = ''message'' then JStr m else if k = ''name'' then JStr n else JUndefined)"
| "get v k = Inr JUndefined"

text \<open>The method call \<^verbatim>\<open>e.toString()\<close>: a TypeError on \<^verbatim>\<open>undefined\<close> and \<^verbatim>\<open>null\<close>.\<close>

definition toString :: "jsval \<Rightarrow> jsval + string" where
  "toString e =
     (if nullish e then Inl (TypeError (''Cannot read property toString of '' @ js_toString e))
      else Inr (js_toString e))"

section \<open>Decimal numbers of the client library\<close>

text \<open>
  \<^verbatim>\<open>SiaAPI.hastingsToSiacoins\<close> returns a \<^verbatim>\<open>BigNumber\<close> of bignumber.js, an
  arbitrary-precision decimal; \<^verbatim>\<open>wallet.js\<close> calls its methods \<^verbatim>\<open>minus\<close>,
  \<^verbatim>\<open>round\<close> and \<^verbatim>\<open>toString\<close>. \<open>Big c e\<close> is the number \<open>c / 10 ^ e\<close>. The
  library's \<^verbatim>\<open>NaN\<close> and infinities are not modelled: a conversion that returns one
  of them is outside the model.
\<close>

datatype BigNumber = Big int nat

fun big_value :: "BigNumber \<Rightarrow> rat" where
  "big_value (Big c e) = of_int c / 10 ^ e"

text \<open>\<^verbatim>\<open>a.minus(b)\<close>: exact subtraction, on the larger of the two scales.\<close>

fun minus_big :: "BigNumber \<Rightarrow> BigNumber \<Rightarrow> BigNumber" where
  "minus_big (Big a e) (Big b f) =
     Big (a * 10 ^ (max e f - e) - b * 10 ^ (max e f - f)) (max e f)"

text \<open>
  \<^verbatim>\<open>x.round(dp)\<close>: the value rounded to at most \<open>dp\<close> decimal places in the library's
  default rounding mode, ROUND_HALF_UP (to the nearest neighbour, a tie away from zero).
\<close>

definition half_up :: "int \<Rightarrow> int \<Rightarrow> int" where
  "half_up c d = sgn c * ((2 * \<bar>c\<bar> + d) div (2 * d))"

fun round_big :: "nat \<Rightarrow> BigNumber \<Rightarrow> BigNumber" where
  "round_big dp (Big c e) = (if e \<le> dp then Big c e else Big (half_up c (10 ^ (e - dp))) dp)"

text \<open>
  \<^verbatim>\<open>x.toString()\<close>: normal notation (the client library switches exponential
  notation off), with no trailing zero after the decimal point and no decimal point
  when the value is an integer.
\<close>

fun strip_zeros :: "int \<Rightarrow> nat \<Rightarrow> int \<times> nat" where
  "strip_zeros c 0 = (c, 0)"
| "strip_zeros c (Suc e) = (if c mod 10 = 0 then strip_zeros (c div 10) e else (c, Suc e))"

definition pad_left :: "nat \<Rightarrow> string \<Rightarrow> string" where
  "pad_left n s = replicate (n - length s) CHR ''0'' @ s"

definition toString_big :: "BigNumber \<Rightarrow> string" where
  "toString_big x =
     (case x of Big c e \<Rightarrow>
        (case strip_zeros c e of (c', e') \<Rightarrow>
           (if c' < 0 then ''-'' else '''')
           @ show_nat (nat \<bar>c'\<bar> div 10 ^ e')
           @ (if e' = 0 then '''' else ''.'' @ pad_left e' (show_nat (nat \<bar>c'\<bar> mod 10 ^ e')))))"

text \<open>
  \<^verbatim>\<open>new BigNumber(v)\<close> for an amount of hastings. Two kinds of value are recognised
  here, on which the constructor returns the integer written:
  \<^item> a number that JavaScript prints with at most 15 significant digits, or a safe
    integer (at most \<open>2 ^ 53 - 1\<close> in magnitude); \<open>JNum n\<close> is the number printed with
    the digits of \<open>n\<close>, and below \<open>10 ^ 308\<close> every such \<open>n\<close> is one;
  \<^item> a string of decimal digits with an optional minus sign, which is what the daemon
    sends.
  On a number with more significant digits the constructor throws, and it accepts
  further strings (fractions, exponents, signs and blanks, other bases, infinities).
  None of that is modelled: what the conversion does on a value not recognised here is
  a parameter of the conversion.
\<close>

fun digit_val :: "char \<Rightarrow> nat option" where
  "digit_val c =
     (if 48 \<le> (of_char c :: nat) \<and> (of_char c :: nat) \<le> 57 then Some (of_char c - 48) else None)"

fun parse_digits :: "string \<Rightarrow> nat \<Rightarrow> nat option" where
  "parse_digits [] acc = Some acc"
| "parse_digits (c # cs) acc =
     (case digit_val c of None \<Rightarrow> None | Some d \<Rightarrow> parse_digits cs (10 * acc + d))"

fun parse_int :: "string \<Rightarrow> int option" where
  "parse_int [] = None"
| "parse_int (c # cs) =
     (if c = CHR ''-''
      then (if cs = [] then None else map_option (\<lambda>n. - int n) (parse_digits cs 0))
      else map_option int (parse_digits (c # cs) 0))"

definition significant_digits :: "int \<Rightarrow> nat" where
  "significant_digits n = length (dropWhile (\<lambda>c. c = CHR ''0'') (rev (show_nat (nat \<bar>n\<bar>))))"

definition MAX_SAFE_INTEGER :: int where
  "MAX_SAFE_INTEGER = 9007199254740991"

fun integer_amount :: "jsval \<Rightarrow> int option" where
  "integer_amount (JNum n) =
     (if (significant_digits n \<le> 15 \<or> \<bar>n\<bar> \<le> MAX_SAFE_INTEGER) \<and> \<bar>n\<bar> < 10 ^ 308
      then Some n else None)"
| "integer_amount (JStr s) = parse_int s"
| "integer_amount v = None"

text \<open>
  \<^verbatim>\<open>SiaAPI.hastingsToSiacoins\<close> is a global of the plugin host, bound to the daemon
  client library's \<^verbatim>\<open>new BigNumber(hastings).dividedBy(10^24)\<close>: one siacoin is
  \<open>10 ^ 24\<close> hastings. Dividing an integer by a power of ten moves the decimal point;
  the quotient has at most 24 decimal places, within the precision the client
  configures, so the division is exact. \<open>other\<close> is the conversion of the values that
  \<open>integer_amount\<close> does not recognise.
\<close>

fun dividedBy_pow10 :: "BigNumber \<Rightarrow> nat \<Rightarrow> BigNumber" where
  "dividedBy_pow10 (Big c e) k = Big c (e + k)"

definition SiaAPI_hastingsToSiacoins ::
    "(jsval \<Rightarrow> jsval + BigNumber) \<Rightarrow> jsval \<Rightarrow> jsval + BigNumber" where
  "SiaAPI_hastingsToSiacoins other hastings =
     (case integer_amount hastings of
        Some n \<Rightarrow> Inr (dividedBy_pow10 (Big n 0) 24)
      | None \<Rightarrow> other hastings)"

section \<open>Actions\<close>

text \<open>
  The action creators (\<^verbatim>\<open>actions/wallet.js\<close>, \<^verbatim>\<open>actions/error.js\<close>) and the action
  types (\<^verbatim>\<open>constants/wallet.js\<close>) are imported by \<^verbatim>\<open>wallet.js\<close>, not defined in it.
  An action is the creator applied to its arguments. The first nine are the commands
  the watchers listen for; the fields the sagas read of them are \<^verbatim>\<open>password\<close>,
  \<^verbatim>\<open>currencytype\<close>, \<^verbatim>\<open>amount\<close> and \<^verbatim>\<open>destination\<close>.
\<close>

datatype action =
    createNewWallet
  | getLockStatus
  | unlockWallet jsval
  | lockWallet
  | getBalance
  | getTransactions
  | getNewReceiveAddress
  | sendCurrency jsval jsval jsval
  | getSyncState
  | setLocked
  | setUnlocked
  | setEncrypted
  | setUnencrypted
  | handlePasswordChange jsval
  | walletUnlockError jsval
  | showNewWalletDialog jsval jsval
  | dismissNewWalletDialog
  | setBalance jsval jsval jsval
  | setTransactions jsval
  | setReceiveAddress jsval
  | showReceivePrompt
  | closeSendPrompt
  | setSendAmount jsval
  | setSendAddress jsval
  | setSyncState jsval

datatype action_type =
    CREATE_NEW_WALLET
  | GET_LOCK_STATUS
  | UNLOCK_WALLET
  | LOCK_WALLET
  | GET_BALANCE
  | GET_TRANSACTIONS
  | GET_NEW_RECEIVE_ADDRESS
  | SEND_CURRENCY
  | GET_SYNCSTATE
  | SET_UNLOCKED
  | STATE_UPDATE

text \<open>
  \<^verbatim>\<open>action.type\<close>. The sagas listen for the nine commands and for \<^verbatim>\<open>SET_UNLOCKED\<close>;
  the types of the other state updates are told apart by nobody in this file.
\<close>

fun type_of :: "action \<Rightarrow> action_type" where
  "type_of createNewWallet = CREATE_NEW_WALLET"
| "type_of getLockStatus = GET_LOCK_STATUS"
| "type_of (unlockWallet p) = UNLOCK_WALLET"
| "type_of lockWallet = LOCK_WALLET"
| "type_of getBalance = GET_BALANCE"
| "type_of getTransactions = GET_TRANSACTIONS"
| "type_of getNewReceiveAddress = GET_NEW_RECEIVE_ADDRESS"
| "type_of (sendCurrency c a d) = SEND_CURRENCY"
| "type_of getSyncState = GET_SYNCSTATE"
| "type_of setUnlocked = SET_UNLOCKED"
| "type_of a = STATE_UPDATE"

text \<open>The fields of an action; one that an action lacks reads as \<^verbatim>\<open>undefined\<close>.\<close>

fun password :: "action \<Rightarrow> jsval" where
  "password (unlockWallet p) = p"
| "password a = JUndefined"

fun currencytype :: "action \<Rightarrow> jsval" where
  "currencytype (sendCurrency c a d) = c"
| "currencytype a = JUndefined"

fun amount :: "action \<Rightarrow> jsval" where
  "amount (sendCurrency c a d) = a"
| "amount a = JUndefined"

fun destination :: "action \<Rightarrow> jsval" where
  "destination (sendCurrency c a d) = d"
| "destination a = JUndefined"

section \<open>Generators and the saga middleware\<close>

text \<open>
  The argument of \<^verbatim>\<open>siadCall\<close>: a path, or an options object with \<^verbatim>\<open>url\<close>,
  \<^verbatim>\<open>method\<close> (here \<open>http_method\<close>), \<^verbatim>\<open>timeout\<close> and \<^verbatim>\<open>qs\<close> (an option left out is \<open>None\<close>, \<open>[]\<close>).
\<close>

record call_opts =
  url :: string
  http_method :: string
  timeout :: "int option"
  qs :: "(string \<times> jsval) list"

datatype siad_arg = Uri string | Opts call_opts

text \<open>
  A saga is a generator. At \<^verbatim>\<open>yield\<close> it hands an effect to the middleware and is
  resumed with a value (\<^verbatim>\<open>next(v)\<close>) or with an exception thrown into it
  (\<^verbatim>\<open>throw(e)\<close>). Between two yields it may call \<^verbatim>\<open>SiaAPI.showError\<close> or
  \<^verbatim>\<open>console.error\<close>. It ends by returning, or with an exception nothing caught.
\<close>

datatype effect = Call siad_arg | Put action | Take action_type

datatype resume = Thrown jsval | Next jsval

datatype io = ShowError string jsval | ConsoleError string

datatype saga =
    Return
  | Uncaught jsval
  | Perform io saga
  | Yield effect "resume \<Rightarrow> saga"

text \<open>A \<^verbatim>\<open>yield\<close> inside \<^verbatim>\<open>try { ... } catch (e) { ... }\<close>, and one outside any.\<close>

definition try_yield :: "effect \<Rightarrow> (jsval \<Rightarrow> saga) \<Rightarrow> (jsval \<Rightarrow> saga) \<Rightarrow> saga" where
  "try_yield eff catch k = Yield eff (\<lambda>r. case r of Thrown e \<Rightarrow> catch e | Next v \<Rightarrow> k v)"

definition yield :: "effect \<Rightarrow> (jsval \<Rightarrow> saga) \<Rightarrow> saga" where
  "yield eff k = Yield eff (\<lambda>r. case r of Thrown e \<Rightarrow> Uncaught e | Next v \<Rightarrow> k v)"

text \<open>An expression that may throw, inside \<^verbatim>\<open>try\<close> and outside.\<close>

definition try_eval :: "jsval + 'a \<Rightarrow> (jsval \<Rightarrow> saga) \<Rightarrow> ('a \<Rightarrow> saga) \<Rightarrow> saga" where
  "try_eval x catch k = (case x of Inl e \<Rightarrow> catch e | Inr v \<Rightarrow> k v)"

definition plain_eval :: "jsval + 'a \<Rightarrow> ('a \<Rightarrow> saga) \<Rightarrow> saga" where
  "plain_eval x k = (case x of Inl e \<Rightarrow> Uncaught e | Inr v \<Rightarrow> k v)"

text \<open>
  What an observer sees of a run: the requests sent to the daemon, the actions the saga
  dispatched, the actions of others that went by while it waited in a \<^verbatim>\<open>take\<close>, the
  error boxes and the console lines.
\<close>

datatype event =
    Requested siad_arg
  | Dispatched action
  | Observed action
  | ErrorBox string jsval
  | Logged string

datatype outcome = Completed | Crashed jsval | Waiting

fun prepend :: "event list \<Rightarrow> event list \<times> outcome \<Rightarrow> event list \<times> outcome" where
  "prepend es (t, out) = (es @ t, out)"

fun io_event :: "io \<Rightarrow> event" where
  "io_event (ShowError title content) = ErrorBox title content"
| "io_event (ConsoleError line) = Logged line"

text \<open>
  The middleware. \<open>siad\<close> is the daemon behind \<^verbatim>\<open>siadCall\<close>: the promise resolves
  (\<open>Inr\<close>) or rejects (\<open>Inl\<close>). A \<^verbatim>\<open>put\<close> dispatches and resumes the saga; the sagas
  discard the value a \<^verbatim>\<open>put\<close> or a \<^verbatim>\<open>take\<close> resumes with, here \<^verbatim>\<open>undefined\<close>.
  \<open>incoming\<close> are the actions other parties dispatch, in order, from the moment the saga
  first waits in a \<^verbatim>\<open>take\<close>: the \<^verbatim>\<open>take\<close> lets them go by up to the first one of its
  type, and waits for ever when there is none.
\<close>

primrec run :: "(siad_arg \<Rightarrow> jsval + jsval) \<Rightarrow> saga \<Rightarrow> action list \<Rightarrow> event list \<times> outcome" where
  "run siad Return incoming = ([], Completed)"
| "run siad (Uncaught e) incoming = ([], Crashed e)"
| "run siad (Perform i s) incoming = prepend [io_event i] (run siad s incoming)"
| "run siad (Yield eff k) incoming =
     (case eff of
        Call a \<Rightarrow>
          prepend [Requested a]
            (run siad (k (case siad a of Inl e \<Rightarrow> Thrown e | Inr v \<Rightarrow> Next v)) incoming)
      | Put a \<Rightarrow> prepend [Dispatched a] (run siad (k (Next JUndefined)) incoming)
      | Take t \<Rightarrow>
          (case dropWhile (\<lambda>a. type_of a \<noteq> t) incoming of
             [] \<Rightarrow> (map Observed incoming, Waiting)
           | a # rest \<Rightarrow>
               prepend (map Observed (takeWhile (\<lambda>a. type_of a \<noteq> t) incoming) @ [Observed a])
                 (run siad (k (Next JUndefined)) rest)))"

section \<open>The sagas of wallet.js\<close>

text \<open>
  \<^verbatim>\<open>sendError\<close>: an error box with \<^verbatim>\<open>e.message\<close>, or with \<^verbatim>\<open>e.toString()\<close> when
  \<^verbatim>\<open>typeof e.message\<close> is \<^verbatim>\<open>'undefined'\<close>. It is called in a \<^verbatim>\<open>catch\<close> block,
  outside any \<^verbatim>\<open>try\<close>; \<open>k\<close> is what follows the call.
\<close>

definition sendError :: "jsval \<Rightarrow> saga \<Rightarrow> saga" where
  "sendError e k =
     plain_eval (get e ''message'') (\<lambda>message.
       if message \<noteq> JUndefined
       then Perform (ShowError ''Sia-UI Wallet Error'' message) k
       else plain_eval (toString e) (\<lambda>s. Perform (ShowError ''Sia-UI Wallet Error'' (JStr s)) k))"

text \<open>\<^verbatim>\<open>console.error(prefix + e.toString())\<close>, the \<^verbatim>\<open>catch\<close> block of the polling sagas.\<close>

definition console_error :: "string \<Rightarrow> jsval \<Rightarrow> saga \<Rightarrow> saga" where
  "console_error prefix e k =
     plain_eval (toString e) (\<lambda>s. Perform (ConsoleError (prefix @ s)) k)"

definition getLockStatusSaga :: saga where
  "getLockStatusSaga =
     (let catch = (\<lambda>e. console_error ''error fetching lock status: '' e Return) in
      try_yield (Call (Uri ''/wallet'')) catch (\<lambda>response.
      try_eval (get response ''unlocked'') catch (\<lambda>unlocked.
      let rest = (\<lambda>_.
        try_eval (get response ''encrypted'') catch (\<lambda>encrypted.
        if truthy encrypted
        then try_yield (Put setEncrypted) catch (\<lambda>_. Return)
        else try_yield (Put setUnencrypted) catch (\<lambda>_. Return))) in
      if \<not> truthy unlocked
      then try_yield (Put setLocked) catch rest
      else try_yield (Put setUnlocked) catch rest)))"

definition walletUnlockSaga :: "action \<Rightarrow> saga" where
  "walletUnlockSaga action =
     (let catch = (\<lambda>e.
        yield (Put (handlePasswordChange (JStr ''''))) (\<lambda>_.
        plain_eval (get e ''message'') (\<lambda>message.
        yield (Put (walletUnlockError message)) (\<lambda>_. Return)))) in
      try_yield
        (Call (Opts \<lparr>url = ''/wallet/unlock'', http_method = ''POST'', timeout = Some 12000000,
                      qs = [(''encryptionpassword'', password action)]\<rparr>)) catch (\<lambda>_.
      try_yield (Put setEncrypted) catch (\<lambda>_.
      try_yield (Put setUnlocked) catch (\<lambda>_.
      try_yield (Put (handlePasswordChange (JStr ''''))) catch (\<lambda>_. Return)))))"


definition createWalletSaga :: saga where
  "createWalletSaga =
     (let catch = (\<lambda>e. sendError e Return) in
      try_yield
        (Call (Opts \<lparr>url = ''/wallet/init'', http_method = ''POST'', timeout = None,
                      qs = [(''dictionary'', JStr ''english'')]\<rparr>)) catch (\<lambda>response.
      try_eval (get response ''primaryseed'') catch (\<lambda>primaryseed.
      try_yield (Put (showNewWalletDialog primaryseed primaryseed)) catch (\<lambda>_.
      try_yield (Take SET_UNLOCKED) catch (\<lambda>_.
      try_yield (Put dismissNewWalletDialog) catch (\<lambda>_. Return))))))"

text \<open>
  \<open>hastingsToSiacoins\<close> is \<^verbatim>\<open>SiaAPI.hastingsToSiacoins\<close>, a global that
  \<^verbatim>\<open>wallet.js\<close> does not define: a parameter of the saga.
\<close>

definition getBalanceSaga :: "(jsval \<Rightarrow> jsval + BigNumber) \<Rightarrow> saga" where
  "getBalanceSaga hastingsToSiacoins =
     (let catch = (\<lambda>e. console_error ''error fetching balance: '' e Return) in
      try_yield (Call (Uri ''/wallet'')) catch (\<lambda>response.
      try_eval (get response ''confirmedsiacoinbalance'') catch (\<lambda>confirmedsiacoinbalance.
      try_eval (hastingsToSiacoins confirmedsiacoinbalance) catch (\<lambda>confirmed.
      try_eval (get response ''unconfirmedincomingsiacoins'') catch (\<lambda>unconfirmedincomingsiacoins.
      try_eval (hastingsToSiacoins unconfirmedincomingsiacoins) catch (\<lambda>unconfirmedIncoming.
      try_eval (get response ''unconfirmedoutgoingsiacoins'') catch (\<lambda>unconfirmedoutgoingsiacoins.
      try_eval (hastingsToSiacoins unconfirmedoutgoingsiacoins) catch (\<lambda>unconfirmedOutgoing.
      let unconfirmed = minus_big unconfirmedIncoming unconfirmedOutgoing in
      try_eval (get response ''siafundbalance'') catch (\<lambda>siafundbalance.
      try_yield
        (Put (setBalance (JStr (toString_big (round_big 2 confirmed)))
                         (JStr (toString_big (round_big 2 unconfirmed)))
                         siafundbalance)) catch (\<lambda>_. Return))))))))))"



text \<open>
  \<open>siacoinsToHastings\<close> is \<^verbatim>\<open>SiaAPI.siacoinsToHastings\<close>, a parameter like
  \<open>hastingsToSiacoins\<close>. The two \<^verbatim>\<open>throw\<close> statements are inside the \<^verbatim>\<open>try\<close>, so they
  jump to its \<^verbatim>\<open>catch\<close>. \<^verbatim>\<open>===\<close> compares with the primitives \<^verbatim>\<open>undefined\<close> and
  \<^verbatim>\<open>''\<close> here, where it is equality of values.
\<close>

definition sendCurrencySaga :: "(jsval \<Rightarrow> jsval + BigNumber) \<Rightarrow> action \<Rightarrow> saga" where
  "sendCurrencySaga siacoinsToHastings action =
     (let catch = (\<lambda>e. sendError e Return) in
      if currencytype action = JUndefined \<or> amount action = JUndefined
         \<or> destination action = JUndefined \<or> amount action = JStr ''''
         \<or> currencytype action = JStr '''' \<or> destination action = JStr ''''
      then catch (JObj [(''message'',
                   JStr ''You must specify an amount and a destination to send Siacoin!'')])
      else if currencytype action \<noteq> JStr ''siafunds'' \<and> currencytype action \<noteq> JStr ''siacoins''
      then catch (JObj [(''message'', JStr ''Invalid currency type!'')])
      else
        try_eval
          (if currencytype action = JStr ''siacoins''
           then (case siacoinsToHastings (amount action) of
                   Inl e \<Rightarrow> Inl e | Inr hastings \<Rightarrow> Inr (JStr (toString_big hastings)))
           else Inr (amount action)) catch (\<lambda>sendAmount.
        try_yield
          (Call (Opts \<lparr>url = ''/wallet/'' @ js_toString (currencytype action), http_method = ''POST'',
                        timeout = None,
                        qs = [(''destination'', destination action), (''amount'', sendAmount)]\<rparr>))
          catch (\<lambda>_.
        try_yield (Put closeSendPrompt) catch (\<lambda>_.
        try_yield (Put getBalance) catch (\<lambda>_.
        try_yield (Put getTransactions) catch (\<lambda>_.
        try_yield (Put (setSendAmount (JStr ''''))) catch (\<lambda>_.
        try_yield (Put (setSendAddress (JStr ''''))) catch (\<lambda>_. Return))))))))"





section \<open>Reading a run\<close>

text \<open>The actions a run dispatched, its error boxes and its console lines, in order.\<close>

fun dispatched :: "event list \<Rightarrow> action list" where
  "dispatched [] = []"
| "dispatched (Dispatched a # t) = a # dispatched t"
| "dispatched (ev # t) = dispatched t"

fun notifications :: "event list \<Rightarrow> (string \<times> jsval) list" where
  "notifications [] = []"
| "notifications (ErrorBox title content # t) = (title, content) # notifications t"
| "notifications (ev # t) = notifications t"


fun requests :: "event list \<Rightarrow> siad_arg list" where
  "requests [] = []"
| "requests (Requested a # t) = a # requests t"
| "requests (ev # t) = requests t"

text \<open>A number of minutes in milliseconds, the unit of the \<^verbatim>\<open>timeout\<close> option.\<close>

definition minutes :: "int \<Rightarrow> int" where
  "minutes m = m * 60 * 1000"

section \<open>UnlockWallet\<close>

text \<open>The request of \<^verbatim>\<open>walletUnlockSaga\<close>.\<close>

definition unlock_request :: "action \<Rightarrow> siad_arg" where
  "unlock_request action =
     Opts \<lparr>url = ''/wallet/unlock'', http_method = ''POST'', timeout = Some 12000000,
           qs = [(''encryptionpassword'', password action)]\<rparr>"

section \<open>SendCurrency\<close>

text \<open>
  The two local checks of \<^verbatim>\<open>sendCurrencySaga\<close>, as conditions on the fields of the
  command, and the two messages it throws.
\<close>

definition unspecified :: "jsval \<Rightarrow> bool" where
  "unspecified v = (v = JUndefined \<or> v = JStr '''')"

definition missing_field :: "jsval \<Rightarrow> jsval \<Rightarrow> jsval \<Rightarrow> bool" where
  "missing_field c a d = (unspecified a \<or> unspecified d \<or> unspecified c)"

definition invalid_currency :: "jsval \<Rightarrow> bool" where
  "invalid_currency c = (c \<noteq> JStr ''siacoins'' \<and> c \<noteq> JStr ''siafunds'')"

definition validation_message :: "jsval \<Rightarrow> jsval \<Rightarrow> jsval \<Rightarrow> string" where
  "validation_message c a d =
     (if missing_field c a d
      then ''You must specify an amount and a destination to send Siacoin!''
      else ''Invalid currency type!'')"

text \<open>The amount the saga sends, and its request.\<close>

definition send_amount :: "(jsval \<Rightarrow> jsval + BigNumber) \<Rightarrow> jsval \<Rightarrow> jsval \<Rightarrow> jsval + jsval" where
  "send_amount siacoinsToHastings c a =
     (if c = JStr ''siacoins''
      then (case siacoinsToHastings a of
              Inl e \<Rightarrow> Inl e | Inr hastings \<Rightarrow> Inr (JStr (toString_big hastings)))
      else Inr a)"

definition send_request :: "jsval \<Rightarrow> jsval \<Rightarrow> jsval \<Rightarrow> siad_arg" where
  "send_request c d sendAmount =
     Opts \<lparr>url = ''/wallet/'' @ js_toString c, http_method = ''POST'', timeout = None,
           qs = [(''destination'', d), (''amount'', sendAmount)]\<rparr>"

section \<open>CreateWallet\<close>

text \<open>The request of \<^verbatim>\<open>createWalletSaga\<close>.\<close>

definition init_request :: siad_arg where
  "init_request =
     Opts \<lparr>url = ''/wallet/init'', http_method = ''POST'', timeout = None,
           qs = [(''dictionary'', JStr ''english'')]\<rparr>"

section \<open>Outcomes of a command\<close>







section \<open>Reading a decimal string\<close>

text \<open>
  The number a decimal string denotes: an optional minus sign, digits, and optionally a
  point followed by digits. It is the yardstick for what \<open>toString_big\<close> prints.
\<close>

definition unsigned_value :: "string \<Rightarrow> rat option" where
  "unsigned_value s =
     (let ip = takeWhile (\<lambda>c. c \<noteq> CHR ''.'') s; rest = dropWhile (\<lambda>c. c \<noteq> CHR ''.'') s in
      if ip = [] then None
      else (case parse_digits ip 0 of
              None \<Rightarrow> None
            | Some a \<Rightarrow>
                (case rest of
                   [] \<Rightarrow> Some (of_nat a)
                 | point # fp \<Rightarrow>
                     if fp = [] then None
                     else (case parse_digits fp 0 of
                             None \<Rightarrow> None
                           | Some b \<Rightarrow> Some (of_nat a + of_nat b / 10 ^ length fp)))))"

fun decimal_value :: "string \<Rightarrow> rat option" where
  "decimal_value [] = None"
| "decimal_value (c # cs) =
     (if c = CHR ''-'' then map_option uminus (unsigned_value cs) else unsigned_value (c # cs))"


text \<open>The reply of the daemon in the spec's GetBalance example.\<close>

definition example_wallet :: jsval where
  "example_wallet =
     JObj [(''confirmedsiacoinbalance'', JNum 2500000000000000000000000),
           (''unconfirmedincomingsiacoins'', JNum 0),
           (''unconfirmedoutgoingsiacoins'', JNum 0),
           (''siafundbalance'', JNum 10)]"

section \<open>Unfolding the sagas\<close>

lemmas saga_defs =
  try_yield_def yield_def try_eval_def plain_eval_def sendError_def console_error_def
  toString_def Let_def

lemma fst_prepend [simp]: "fst (prepend es r) = es @ fst r"
  by (cases r) simp

lemma snd_prepend [simp]: "snd (prepend es r) = snd r"
  by (cases r) simp


lemma dispatched_Observed: "dispatched (map Observed as) = []"
  by (induction as) simp_all



lemma get_not_nullish: "\<not> nullish v \<Longrightarrow> \<exists>x. get v k = Inr x"
  by (cases v) simp_all

lemma get_Inr_not_nullish: "get v k = Inr x \<Longrightarrow> \<not> nullish v"
  by (cases v) simp_all

lemma run_Call:
  "run siad (Yield (Call a) k) incoming =
     prepend [Requested a]
       (run siad (k (case siad a of Inl e \<Rightarrow> Thrown e | Inr v \<Rightarrow> Next v)) incoming)"
  by simp

lemma run_Put:
  "run siad (Yield (Put a) k) incoming =
     prepend [Dispatched a] (run siad (k (Next JUndefined)) incoming)"
  by simp

section \<open>Theorems on UnlockWallet\<close>

lemma walletUnlockSaga_rejected:
  assumes "siad (unlock_request action) = Inl e"
    and "get e ''message'' = Inr message"
  shows "run siad (walletUnlockSaga action) incoming =
     ([Requested (unlock_request action),
       Dispatched (handlePasswordChange (JStr '''')),
       Dispatched (walletUnlockError message)], Completed)"
  using assms by (simp add: walletUnlockSaga_def unlock_request_def saga_defs)


lemma sendError_run:
  assumes "get e ''message'' = Inr message"
  shows "run siad (sendError e k) incoming =
     prepend [ErrorBox ''Sia-UI Wallet Error''
                (if message \<noteq> JUndefined then message else JStr (js_toString e))]
       (run siad k incoming)"
  using assms get_Inr_not_nullish [OF assms] by (simp add: saga_defs)

text \<open>
  C2. \<^verbatim>\<open>walletUnlockSaga\<close> first sends POST \<^verbatim>\<open>/wallet/unlock\<close> with the password as
  the query parameter \<^verbatim>\<open>encryptionpassword\<close>, whatever the daemon answers. Its timeout
  is the literal 12000000: in milliseconds that is 200 minutes, not the 20 minutes the
  comment beside it announces.
\<close>

theorem walletUnlockSaga_request:
  "fst (run siad (walletUnlockSaga (unlockWallet pw)) incoming) ! 0 =
     Requested (Opts \<lparr>url = ''/wallet/unlock'', http_method = ''POST'', timeout = Some 12000000,
                      qs = [(''encryptionpassword'', pw)]\<rparr>)
   \<and> (12000000 :: int) = minutes 200 \<and> (12000000 :: int) \<noteq> minutes 20"
  by (simp add: walletUnlockSaga_def saga_defs minutes_def)

text \<open>
  C7. When the unlock request is rejected with an error value (anything but
  \<^verbatim>\<open>undefined\<close> and \<^verbatim>\<open>null\<close>), the saga dispatches the clearing of the password
  field and then the unlock error, in that order, and nothing else.
\<close>

theorem walletUnlockSaga_failure_clears_then_reports:
  assumes "siad (unlock_request action) = Inl e"
    and "\<not> nullish e"
  shows "\<exists>message. get e ''message'' = Inr message
     \<and> run siad (walletUnlockSaga action) incoming =
         ([Requested (unlock_request action),
           Dispatched (handlePasswordChange (JStr '''')),
           Dispatched (walletUnlockError message)], Completed)"
proof -
  from assms(2) obtain message where m: "get e ''message'' = Inr message"
    using get_not_nullish by blast
  with assms(1) show ?thesis
    using walletUnlockSaga_rejected by blast
qed

theorem walletUnlockSaga_failure_clears_then_reports_witness:
  "dispatched (fst (run (\<lambda>_. Inl (JError ''Error'' ''wrong password''))
       (walletUnlockSaga (unlockWallet (JStr ''pw''))) [])) =
     [handlePasswordChange (JStr ''''), walletUnlockError (JStr ''wrong password'')]"
  using walletUnlockSaga_failure_clears_then_reports
    [of "\<lambda>_. Inl (JError ''Error'' ''wrong password'')" "unlockWallet (JStr ''pw'')"
        "JError ''Error'' ''wrong password''" "[]"]
  by auto

text \<open>
  C10. The unlock error carries \<^verbatim>\<open>e.message\<close> as it is: when the rejection's
  \<^verbatim>\<open>message\<close> is \<^verbatim>\<open>undefined\<close>, so is the event's. \<^verbatim>\<open>sendError\<close>, the path of the
  other sagas, shows \<^verbatim>\<open>e.toString()\<close> in that case.
\<close>

theorem walletUnlockError_has_no_fallback:
  assumes "siad (unlock_request action) = Inl e"
    and "get e ''message'' = Inr message"
  shows "dispatched (fst (run siad (walletUnlockSaga action) incoming)) =
           [handlePasswordChange (JStr ''''), walletUnlockError message]
     \<and> notifications (fst (run siad' (sendError e Return) incoming')) =
           [(''Sia-UI Wallet Error'',
             if message = JUndefined then JStr (js_toString e) else message)]"
  using assms by (simp add: walletUnlockSaga_rejected sendError_run)

theorem walletUnlockError_has_no_fallback_witness:
  "get (JStr ''ECONNREFUSED'') ''message'' = Inr JUndefined
   \<and> dispatched (fst (run (\<lambda>_. Inl (JStr ''ECONNREFUSED''))
         (walletUnlockSaga (unlockWallet (JStr ''pw''))) [])) =
       [handlePasswordChange (JStr ''''), walletUnlockError JUndefined]
   \<and> notifications (fst (run (\<lambda>_. Inl (JStr ''ECONNREFUSED''))
         (sendError (JStr ''ECONNREFUSED'') Return) [])) =
       [(''Sia-UI Wallet Error'', JStr ''ECONNREFUSED'')]"
  using walletUnlockError_has_no_fallback
    [of "\<lambda>_. Inl (JStr ''ECONNREFUSED'')" "unlockWallet (JStr ''pw'')"
        "JStr ''ECONNREFUSED''" JUndefined "[]" "\<lambda>_. Inl (JStr ''ECONNREFUSED'')" "[]"]
  by simp

section \<open>Theorems on SendCurrency\<close>

lemma sendCurrencySaga_invalid:
  assumes "missing_field c a d \<or> invalid_currency c"
  shows "run siad (sendCurrencySaga siacoinsToHastings (sendCurrency c a d)) incoming =
     ([ErrorBox ''Sia-UI Wallet Error'' (JStr (validation_message c a d))], Completed)"
  using assms
  by (auto simp: sendCurrencySaga_def saga_defs missing_field_def unspecified_def
      invalid_currency_def validation_message_def)

lemma sendCurrencySaga_valid:
  assumes "\<not> missing_field c a d" and "\<not> invalid_currency c"
  shows "run siad (sendCurrencySaga siacoinsToHastings (sendCurrency c a d)) incoming =
     (case send_amount siacoinsToHastings c a of
        Inl e \<Rightarrow> run siad (sendError e Return) incoming
      | Inr sendAmount \<Rightarrow>
          prepend [Requested (send_request c d sendAmount)]
            (case siad (send_request c d sendAmount) of
               Inl e \<Rightarrow> run siad (sendError e Return) incoming
             | Inr v \<Rightarrow>
                 ([Dispatched closeSendPrompt, Dispatched getBalance,
                   Dispatched getTransactions, Dispatched (setSendAmount (JStr '''')),
                   Dispatched (setSendAddress (JStr ''''))], Completed)))"
  using assms
  by (auto simp: sendCurrencySaga_def try_yield_def try_eval_def Let_def missing_field_def
      unspecified_def invalid_currency_def send_amount_def send_request_def
      split: sum.splits)

lemma sendError_dispatches_nothing: "dispatched (fst (run siad (sendError e Return) incoming)) = []"
  by (cases e) (auto simp: saga_defs split: sum.splits)

text \<open>
  C3. A SendCurrency command whose amount, destination or currency type is
  \<^verbatim>\<open>undefined\<close> or the empty string, or whose currency type is neither
  \<^verbatim>\<open>siacoins\<close> nor \<^verbatim>\<open>siafunds\<close>, ends in one error box with the message of the
  check that failed. The run is the same whatever the conversion function and the
  daemon are: neither is consulted, and no request is sent.
\<close>

theorem sendCurrencySaga_fails_fast:
  assumes "missing_field c a d \<or> invalid_currency c"
  shows "run siad (sendCurrencySaga siacoinsToHastings (sendCurrency c a d)) incoming =
           ([ErrorBox ''Sia-UI Wallet Error'' (JStr (validation_message c a d))], Completed)
     \<and> run siad (sendCurrencySaga siacoinsToHastings (sendCurrency c a d)) incoming =
         run siad' (sendCurrencySaga siacoinsToHastings' (sendCurrency c a d)) incoming'
     \<and> requests (fst (run siad (sendCurrencySaga siacoinsToHastings (sendCurrency c a d))
           incoming)) = []"
  using assms by (simp add: sendCurrencySaga_invalid)

theorem sendCurrencySaga_fails_fast_witness:
  "invalid_currency (JStr ''bogus'')
   \<and> run (\<lambda>_. Inr JUndefined)
       (sendCurrencySaga (\<lambda>_. Inr (Big 1 0))
          (sendCurrency (JStr ''bogus'') (JStr ''1'') (JStr ''addr''))) [] =
     ([ErrorBox ''Sia-UI Wallet Error'' (JStr ''Invalid currency type!'')], Completed)"
  using sendCurrencySaga_fails_fast
    [of "JStr ''bogus''" "JStr ''1''" "JStr ''addr''" "\<lambda>_. Inr JUndefined" "\<lambda>_. Inr (Big 1 0)" "[]"]
  by (simp add: invalid_currency_def missing_field_def unspecified_def validation_message_def)

text \<open>
  C6. When the command passes the local checks, its amount converts and the daemon
  accepts the request, the saga closes the prompt, dispatches one \<^verbatim>\<open>getBalance\<close> and
  one \<^verbatim>\<open>getTransactions\<close>, and clears the amount and the address. In every other
  case (a check fails, the conversion throws, the daemon rejects the request) the saga
  dispatches nothing at all, so the two fields stay as they are.
\<close>

theorem sendCurrencySaga_clears_fields_only_on_success:
  "(\<not> missing_field c a d \<and> \<not> invalid_currency c
      \<and> send_amount siacoinsToHastings c a = Inr sendAmount
      \<and> siad (send_request c d sendAmount) = Inr v \<longrightarrow>
        run siad (sendCurrencySaga siacoinsToHastings (sendCurrency c a d)) incoming =
          ([Requested (send_request c d sendAmount),
            Dispatched closeSendPrompt, Dispatched getBalance, Dispatched getTransactions,
            Dispatched (setSendAmount (JStr '''')), Dispatched (setSendAddress (JStr ''''))],
           Completed))
   \<and> (missing_field c a d \<or> invalid_currency c
      \<or> (\<exists>e. send_amount siacoinsToHastings c a = Inl e)
      \<or> (\<exists>sendAmount e. send_amount siacoinsToHastings c a = Inr sendAmount
            \<and> siad (send_request c d sendAmount) = Inl e) \<longrightarrow>
        dispatched (fst (run siad (sendCurrencySaga siacoinsToHastings (sendCurrency c a d))
          incoming)) = [])"
proof (intro conjI impI)
  assume "\<not> missing_field c a d \<and> \<not> invalid_currency c
      \<and> send_amount siacoinsToHastings c a = Inr sendAmount
      \<and> siad (send_request c d sendAmount) = Inr v"
  then show "run siad (sendCurrencySaga siacoinsToHastings (sendCurrency c a d)) incoming =
          ([Requested (send_request c d sendAmount),
            Dispatched closeSendPrompt, Dispatched getBalance, Dispatched getTransactions,
            Dispatched (setSendAmount (JStr '''')), Dispatched (setSendAddress (JStr ''''))],
           Completed)"
    by (simp add: sendCurrencySaga_valid)
next
  assume failure: "missing_field c a d \<or> invalid_currency c
      \<or> (\<exists>e. send_amount siacoinsToHastings c a = Inl e)
      \<or> (\<exists>sendAmount e. send_amount siacoinsToHastings c a = Inr sendAmount
            \<and> siad (send_request c d sendAmount) = Inl e)"
  show "dispatched (fst (run siad (sendCurrencySaga siacoinsToHastings (sendCurrency c a d))
          incoming)) = []"
  proof (cases "missing_field c a d \<or> invalid_currency c")
    case True
    then show ?thesis by (simp add: sendCurrencySaga_invalid)
  next
    case False
    with failure show ?thesis
      by (auto simp: sendCurrencySaga_valid sendError_dispatches_nothing)
  qed
qed

theorem sendCurrencySaga_clears_fields_only_on_success_witness:
  "dispatched (fst (run (\<lambda>_. Inr JUndefined)
       (sendCurrencySaga (\<lambda>_. Inr (Big 5 0))
          (sendCurrency (JStr ''siafunds'') (JStr ''3'') (JStr ''addr''))) [])) =
     [closeSendPrompt, getBalance, getTransactions, setSendAmount (JStr ''''),
      setSendAddress (JStr '''')]
   \<and> dispatched (fst (run (\<lambda>_. Inl (JError ''Error'' ''insufficient funds''))
       (sendCurrencySaga (\<lambda>_. Inr (Big 5 0))
          (sendCurrency (JStr ''siafunds'') (JStr ''3'') (JStr ''addr''))) [])) = []"
  using sendCurrencySaga_clears_fields_only_on_success
    [of "JStr ''siafunds''" "JStr ''3''" "JStr ''addr''" "\<lambda>_. Inr (Big 5 0)" "JStr ''3''"
        "\<lambda>_. Inr JUndefined" JUndefined "[]"]
    sendCurrencySaga_clears_fields_only_on_success
    [of "JStr ''siafunds''" "JStr ''3''" "JStr ''addr''" "\<lambda>_. Inr (Big 5 0)" "JStr ''3''"
        "\<lambda>_. Inl (JError ''Error'' ''insufficient funds'')" JUndefined "[]"]
  by (simp add: invalid_currency_def missing_field_def unspecified_def send_amount_def)

section \<open>Theorems on GetLockStatus\<close>

lemma getLockStatusSaga_resolved:
  assumes "siad (Uri ''/wallet'') = Inr response"
    and "get response ''unlocked'' = Inr unlocked"
    and "get response ''encrypted'' = Inr encrypted"
  shows "run siad getLockStatusSaga incoming =
     ([Requested (Uri ''/wallet''),
       Dispatched (if \<not> truthy unlocked then setLocked else setUnlocked),
       Dispatched (if truthy encrypted then setEncrypted else setUnencrypted)], Completed)"
  using assms by (simp add: getLockStatusSaga_def saga_defs)

text \<open>
  C5. For every reply of the daemon to GetLockStatus that is not \<^verbatim>\<open>undefined\<close> or
  \<^verbatim>\<open>null\<close>, the saga dispatches two actions. The first is \<^verbatim>\<open>setLocked\<close> when
  \<^verbatim>\<open>unlocked\<close> is false (falsy, as \<^verbatim>\<open>!response.unlocked\<close> reads it: for a boolean
  field, the value \<^verbatim>\<open>false\<close>) and \<^verbatim>\<open>setUnlocked\<close> otherwise; the second is
  \<^verbatim>\<open>setEncrypted\<close> when \<^verbatim>\<open>encrypted\<close> is true and \<^verbatim>\<open>setUnencrypted\<close> otherwise.
  So of each pair exactly one action is dispatched, exactly once.
\<close>

theorem getLockStatusSaga_exactly_one_of_each_pair:
  assumes "siad (Uri ''/wallet'') = Inr response"
    and "\<not> nullish response"
  shows "\<exists>unlocked encrypted ds.
       get response ''unlocked'' = Inr unlocked
     \<and> get response ''encrypted'' = Inr encrypted
     \<and> ds = dispatched (fst (run siad getLockStatusSaga incoming))
     \<and> count_list ds setLocked + count_list ds setUnlocked = 1
     \<and> count_list ds setEncrypted + count_list ds setUnencrypted = 1
     \<and> (setLocked \<in> set ds) = (\<not> truthy unlocked)
     \<and> (setUnlocked \<in> set ds) = truthy unlocked
     \<and> (setEncrypted \<in> set ds) = truthy encrypted
     \<and> (setUnencrypted \<in> set ds) = (\<not> truthy encrypted)
     \<and> (\<forall>b. unlocked = JBool b \<longrightarrow> (setLocked \<in> set ds) = (b = False))
     \<and> (\<forall>b. encrypted = JBool b \<longrightarrow> (setEncrypted \<in> set ds) = (b = True))
     \<and> length ds = 2"
proof -
  from assms(2) obtain unlocked where u: "get response ''unlocked'' = Inr unlocked"
    using get_not_nullish by blast
  from assms(2) obtain encrypted where e: "get response ''encrypted'' = Inr encrypted"
    using get_not_nullish by blast
  have "dispatched (fst (run siad getLockStatusSaga incoming)) =
      [if \<not> truthy unlocked then setLocked else setUnlocked,
       if truthy encrypted then setEncrypted else setUnencrypted]"
    using assms(1) u e by (simp add: getLockStatusSaga_resolved)
  with u e show ?thesis by auto
qed

theorem getLockStatusSaga_exactly_one_of_each_pair_witness:
  "\<not> nullish (JObj [(''unlocked'', JBool False), (''encrypted'', JBool True)])
   \<and> dispatched (fst (run (\<lambda>_. Inr (JObj [(''unlocked'', JBool False), (''encrypted'', JBool True)]))
       getLockStatusSaga [])) = [setLocked, setEncrypted]"
  using getLockStatusSaga_exactly_one_of_each_pair
    [of "\<lambda>_. Inr (JObj [(''unlocked'', JBool False), (''encrypted'', JBool True)])"
        "JObj [(''unlocked'', JBool False), (''encrypted'', JBool True)]" "[]"]
  by (simp add: getLockStatusSaga_def saga_defs)

section \<open>Theorems on CreateWallet\<close>

lemma type_of_SET_UNLOCKED: "(type_of a = SET_UNLOCKED) = (a = setUnlocked)"
  by (cases a) simp_all

lemma run_Take_SET_UNLOCKED:
  "run siad (Yield (Take SET_UNLOCKED) k) incoming =
     (if setUnlocked \<in> set incoming
      then prepend
             (map Observed (takeWhile (\<lambda>a. a \<noteq> setUnlocked) incoming) @ [Observed setUnlocked])
             (run siad (k (Next JUndefined)) (tl (dropWhile (\<lambda>a. a \<noteq> setUnlocked) incoming)))
      else (map Observed incoming, Waiting))"
proof (cases "dropWhile (\<lambda>a. a \<noteq> setUnlocked) incoming")
  case Nil
  then have "setUnlocked \<notin> set incoming"
    by (auto simp: dropWhile_eq_Nil_conv)
  with Nil show ?thesis
    by (simp add: type_of_SET_UNLOCKED del: dropWhile_eq_Nil_conv)
next
  case (Cons a rest)
  then have "a = setUnlocked" and "setUnlocked \<in> set incoming"
    using hd_dropWhile [of "\<lambda>a. a \<noteq> setUnlocked" incoming] set_dropWhileD [of a "\<lambda>a. a \<noteq> setUnlocked" incoming]
    by auto
  with Cons show ?thesis
    by (simp add: type_of_SET_UNLOCKED)
qed

lemma createWalletSaga_resolved:
  assumes "siad init_request = Inr response"
    and "get response ''primaryseed'' = Inr seed"
  shows "run siad createWalletSaga incoming =
     (if setUnlocked \<in> set incoming
      then ([Requested init_request, Dispatched (showNewWalletDialog seed seed)]
            @ map Observed (takeWhile (\<lambda>a. a \<noteq> setUnlocked) incoming)
            @ [Observed setUnlocked, Dispatched dismissNewWalletDialog], Completed)
      else ([Requested init_request, Dispatched (showNewWalletDialog seed seed)]
            @ map Observed incoming, Waiting))"
  using assms
  by (simp add: createWalletSaga_def init_request_def try_yield_def try_eval_def Let_def
      run_Call run_Put run_Take_SET_UNLOCKED del: run.simps(4))

lemma createWalletSaga_failed:
  assumes "siad init_request = Inl e
     \<or> (\<exists>response e. siad init_request = Inr response \<and> get response ''primaryseed'' = Inl e)"
  shows "dispatched (fst (run siad createWalletSaga incoming)) = []"
  using assms
  by (auto simp: createWalletSaga_def init_request_def try_yield_def try_eval_def Let_def
      sendError_dispatches_nothing)

lemma not_dispatched: "dispatched t = [] \<Longrightarrow> Dispatched a \<notin> set t"
  by (induction t rule: dispatched.induct) auto
text \<open>
  C8. In every run of \<^verbatim>\<open>createWalletSaga\<close>, whatever the daemon answers and whatever
  others dispatch, a \<^verbatim>\<open>dismissNewWalletDialog\<close> in the run comes after a
  \<^verbatim>\<open>setUnlocked\<close> that the saga observed, which comes after its
  \<^verbatim>\<open>showNewWalletDialog\<close>. Without a \<^verbatim>\<open>setUnlocked\<close> among the incoming actions
  there is no dismissal. The dialog action carries \<^verbatim>\<open>response.primaryseed\<close> in both
  of its arguments.
\<close>

theorem createWalletSaga_dismisses_only_after_unlock:
  "(\<forall>i < length (fst (run siad createWalletSaga incoming)).
        fst (run siad createWalletSaga incoming) ! i = Dispatched dismissNewWalletDialog \<longrightarrow>
        (\<exists>j k seed. j < k \<and> k < i
           \<and> fst (run siad createWalletSaga incoming) ! j =
               Dispatched (showNewWalletDialog seed seed)
           \<and> fst (run siad createWalletSaga incoming) ! k = Observed setUnlocked))
   \<and> (setUnlocked \<notin> set incoming \<longrightarrow>
        Dispatched dismissNewWalletDialog \<notin> set (fst (run siad createWalletSaga incoming)))
   \<and> (\<forall>response seed. siad init_request = Inr response
          \<and> get response ''primaryseed'' = Inr seed \<longrightarrow>
        take 2 (fst (run siad createWalletSaga incoming)) =
          [Requested init_request, Dispatched (showNewWalletDialog seed seed)])"
proof -
  let ?t = "fst (run siad createWalletSaga incoming)"
  have "dispatched ?t = [] \<or> (\<exists>response seed. siad init_request = Inr response
        \<and> get response ''primaryseed'' = Inr seed)"
  proof (cases "siad init_request")
    case (Inl e)
    then show ?thesis using createWalletSaga_failed by blast
  next
    case (Inr response)
    then show ?thesis using createWalletSaga_failed by (cases "get response ''primaryseed''") blast+
  qed
  then consider (failed) "dispatched ?t = []"
    | (resolved) response seed where "siad init_request = Inr response"
        and "get response ''primaryseed'' = Inr seed"
    by blast
  note shape = this
  from shape have first: "\<forall>i < length ?t. ?t ! i = Dispatched dismissNewWalletDialog \<longrightarrow>
        (\<exists>j k seed. j < k \<and> k < i \<and> ?t ! j = Dispatched (showNewWalletDialog seed seed)
           \<and> ?t ! k = Observed setUnlocked)"
  proof cases
    case failed
    then have "Dispatched dismissNewWalletDialog \<notin> set ?t" by (rule not_dispatched)
    then show ?thesis by (metis nth_mem)
  next
    case resolved
    show ?thesis
    proof (cases "setUnlocked \<in> set incoming")
      case False
      with resolved have "?t = [Requested init_request, Dispatched (showNewWalletDialog seed seed)]
            @ map Observed incoming"
        by (simp add: createWalletSaga_resolved)
      then have "Dispatched dismissNewWalletDialog \<notin> set ?t" by auto
      then show ?thesis by (metis nth_mem)
    next
      case True
      define A where "A = Requested init_request # Dispatched (showNewWalletDialog seed seed)
          # map Observed (takeWhile (\<lambda>a. a \<noteq> setUnlocked) incoming) @ [Observed setUnlocked]"
      from True resolved have t: "?t = A @ [Dispatched dismissNewWalletDialog]"
        by (simp add: createWalletSaga_resolved A_def)
      have notin: "Dispatched dismissNewWalletDialog \<notin> set A" by (auto simp: A_def)
      have show_at: "A ! 1 = Dispatched (showNewWalletDialog seed seed)" by (simp add: A_def)
      have unlocked_at: "A ! (length A - 1) = Observed setUnlocked"
        by (simp add: A_def nth_append)
      have len: "2 < length A" by (simp add: A_def)
      show ?thesis
      proof (intro allI impI)
        fix i assume i: "i < length ?t" and d: "?t ! i = Dispatched dismissNewWalletDialog"
        have "i = length A"
        proof (rule ccontr)
          assume "i \<noteq> length A"
          with i t have less: "i < length A" by simp
          then have "?t ! i = A ! i" using t by (simp add: nth_append)
          with less have "?t ! i \<in> set A" by simp
          with d notin show False by simp
        qed
        moreover have "?t ! 1 = Dispatched (showNewWalletDialog seed seed)"
          using t len show_at by (simp add: nth_append)
        moreover have "?t ! (length A - 1) = Observed setUnlocked"
          using t len unlocked_at by (simp add: nth_append)
        ultimately show "\<exists>j k seed. j < k \<and> k < i
            \<and> ?t ! j = Dispatched (showNewWalletDialog seed seed) \<and> ?t ! k = Observed setUnlocked"
          using len
          by (rule_tac x = 1 in exI, rule_tac x = "length A - 1" in exI, rule_tac x = seed in exI) auto
      qed
    qed
  qed
  have second: "setUnlocked \<notin> set incoming \<longrightarrow> Dispatched dismissNewWalletDialog \<notin> set ?t"
  proof
    assume no: "setUnlocked \<notin> set incoming"
    from shape show "Dispatched dismissNewWalletDialog \<notin> set ?t"
    proof cases
      case failed
      then show ?thesis by (rule not_dispatched)
    next
      case resolved
      with no have "?t = [Requested init_request, Dispatched (showNewWalletDialog seed seed)]
            @ map Observed incoming"
        by (simp add: createWalletSaga_resolved)
      then show ?thesis by auto
    qed
  qed
  have third: "\<forall>response seed. siad init_request = Inr response
          \<and> get response ''primaryseed'' = Inr seed \<longrightarrow>
        take 2 ?t = [Requested init_request, Dispatched (showNewWalletDialog seed seed)]"
    by (simp add: createWalletSaga_resolved)
  from first second third show ?thesis by blast
qed

theorem createWalletSaga_dismisses_only_after_unlock_witness:
  "fst (run (\<lambda>_. Inr (JObj [(''primaryseed'', JStr ''abandon ability'')])) createWalletSaga
       [setLocked, setUnlocked]) =
     [Requested init_request,
      Dispatched (showNewWalletDialog (JStr ''abandon ability'') (JStr ''abandon ability'')),
      Observed setLocked, Observed setUnlocked, Dispatched dismissNewWalletDialog]
   \<and> fst (run (\<lambda>_. Inr (JObj [(''primaryseed'', JStr ''abandon ability'')])) createWalletSaga
       [setLocked]) =
     [Requested init_request,
      Dispatched (showNewWalletDialog (JStr ''abandon ability'') (JStr ''abandon ability'')),
      Observed setLocked]"
  using createWalletSaga_dismisses_only_after_unlock
    [of "\<lambda>_. Inr (JObj [(''primaryseed'', JStr ''abandon ability'')])" "[setLocked, setUnlocked]"]
    createWalletSaga_dismisses_only_after_unlock
    [of "\<lambda>_. Inr (JObj [(''primaryseed'', JStr ''abandon ability'')])" "[setLocked]"]
  by (simp add: createWalletSaga_def init_request_def saga_defs)

text \<open>
  C9. The \<^verbatim>\<open>take\<close> of \<^verbatim>\<open>createWalletSaga\<close> asks only for the type
  \<^verbatim>\<open>SET_UNLOCKED\<close>: the first \<^verbatim>\<open>setUnlocked\<close> among the incoming actions, whoever
  dispatched it, ends the wait, and the dismissal follows it at once. In particular
  the \<^verbatim>\<open>setUnlocked\<close> that a run of \<^verbatim>\<open>getLockStatusSaga\<close> dispatches for an
  unlocked wallet does so, wherever it falls among the incoming actions.
\<close>

theorem createWalletSaga_released_by_any_setUnlocked:
  assumes "siad init_request = Inr response"
    and "get response ''primaryseed'' = Inr seed"
  shows "(setUnlocked \<in> set incoming \<longrightarrow>
            run siad createWalletSaga incoming =
              ([Requested init_request, Dispatched (showNewWalletDialog seed seed)]
               @ map Observed (takeWhile (\<lambda>a. a \<noteq> setUnlocked) incoming)
               @ [Observed setUnlocked, Dispatched dismissNewWalletDialog], Completed))
     \<and> (siad' (Uri ''/wallet'') = Inr status \<and> get status ''unlocked'' = Inr unlocked
          \<and> truthy unlocked \<and> get status ''encrypted'' = Inr encrypted \<longrightarrow>
            setUnlocked \<in> set (dispatched (fst (run siad' getLockStatusSaga incoming')))
          \<and> snd (run siad createWalletSaga
                (before @ dispatched (fst (run siad' getLockStatusSaga incoming')) @ after)) =
              Completed
          \<and> last (fst (run siad createWalletSaga
                (before @ dispatched (fst (run siad' getLockStatusSaga incoming')) @ after))) =
              Dispatched dismissNewWalletDialog)"
  using assms by (simp add: createWalletSaga_resolved getLockStatusSaga_resolved)

theorem createWalletSaga_released_by_any_setUnlocked_witness:
  "dispatched (fst (run (\<lambda>_. Inr (JObj [(''unlocked'', JBool True), (''encrypted'', JBool True)]))
       getLockStatusSaga [])) = [setUnlocked, setEncrypted]
   \<and> run (\<lambda>_. Inr (JObj [(''primaryseed'', JStr ''abandon ability'')])) createWalletSaga
       ([setSyncState (JBool True)]
        @ dispatched (fst (run
            (\<lambda>_. Inr (JObj [(''unlocked'', JBool True), (''encrypted'', JBool True)]))
            getLockStatusSaga []))
        @ []) =
     ([Requested init_request,
       Dispatched (showNewWalletDialog (JStr ''abandon ability'') (JStr ''abandon ability'')),
       Observed (setSyncState (JBool True)), Observed setUnlocked,
       Dispatched dismissNewWalletDialog], Completed)"
  using createWalletSaga_released_by_any_setUnlocked
    [of "\<lambda>_. Inr (JObj [(''primaryseed'', JStr ''abandon ability'')])"
        "JObj [(''primaryseed'', JStr ''abandon ability'')]" "JStr ''abandon ability''"
        "[setSyncState (JBool True), setUnlocked, setEncrypted]"
        "\<lambda>_. Inr (JObj [(''unlocked'', JBool True), (''encrypted'', JBool True)])"
        "JObj [(''unlocked'', JBool True), (''encrypted'', JBool True)]"
        "JBool True" "JBool True" "[]" "[setSyncState (JBool True)]" "[]"]
  by (simp add: createWalletSaga_def getLockStatusSaga_def init_request_def saga_defs)

section \<open>Theorems on the outcome of a command\<close>
































section \<open>Theorems on GetBalance\<close>

lemma strip_zeros_unfold:
  "0 < e \<Longrightarrow>
   strip_zeros c e = (if c mod 10 = 0 then strip_zeros (c div 10) (e - 1) else (c, e))"
  by (cases e) simp_all

lemmas big_eval =
  toString_big_def half_up_def strip_zeros_unfold show_nat.simps pad_left_def digit_char_def

lemma big_value_minus_big: "big_value (minus_big a b) = big_value a - big_value b"
proof (cases a)
  case a: (Big x e)
  show ?thesis
  proof (cases b)
    case b: (Big y f)
    have e: "(10::rat) ^ max e f = 10 ^ e * 10 ^ (max e f - e)"
      by (simp add: power_add [symmetric])
    have f: "(10::rat) ^ max e f = 10 ^ f * 10 ^ (max e f - f)"
      by (simp add: power_add [symmetric])
    have "big_value (minus_big a b) =
        of_int x * 10 ^ (max e f - e) / 10 ^ max e f - of_int y * 10 ^ (max e f - f) / 10 ^ max e f"
      by (simp add: a b diff_divide_distrib)
    also have "of_int x * 10 ^ (max e f - e) / (10::rat) ^ max e f = of_int x / 10 ^ e"
      by (subst e) simp
    also have "of_int y * 10 ^ (max e f - f) / (10::rat) ^ max e f = of_int y / 10 ^ f"
      by (subst f) simp
    finally show ?thesis by (simp add: a b)
  qed
qed

lemma half_up_error:
  assumes "0 < d"
  shows "2 * \<bar>half_up c d * d - c\<bar> \<le> d"
proof -
  define q where "q = (2 * \<bar>c\<bar> + d) div (2 * d)"
  define m where "m = (2 * \<bar>c\<bar> + d) mod (2 * d)"
  have "2 * \<bar>c\<bar> + d = (2 * d) * q + m"
    unfolding q_def m_def by (rule mult_div_mod_eq [symmetric])
  then have eq: "2 * \<bar>c\<bar> + d = 2 * (q * d) + m"
    by (simp only: mult.assoc mult.commute [of d q])
  have m: "0 \<le> m" "m < 2 * d"
    using assms by (simp_all add: m_def)
  define z where "z = q * d - \<bar>c\<bar>"
  from eq have "2 * z = d - m" by (simp add: z_def)
  with m have "2 * \<bar>z\<bar> \<le> d" by linarith
  then have near: "2 * \<bar>q * d - \<bar>c\<bar>\<bar> \<le> d" by (simp add: z_def)
  show ?thesis
  proof (cases "c < 0")
    case True
    then have "half_up c d * d - c = - (q * d - \<bar>c\<bar>)"
      by (simp add: half_up_def q_def)
    with near show ?thesis by (simp add: abs_minus_commute)
  next
    case False
    show ?thesis
    proof (cases "c = 0")
      case True
      then show ?thesis using assms by (simp add: half_up_def)
    next
      case False
      with \<open>\<not> c < 0\<close> have "half_up c d * d - c = q * d - \<bar>c\<bar>"
        by (simp add: half_up_def q_def)
      with near show ?thesis by simp
    qed
  qed
qed

lemma round_big_error: "\<bar>big_value (round_big dp x) - big_value x\<bar> \<le> 1 / (2 * 10 ^ dp)"
proof (cases x)
  case (Big c e)
  show ?thesis
  proof (cases "e \<le> dp")
    case True
    with Big show ?thesis by simp
  next
    case False
    define d :: int where "d = 10 ^ (e - dp)"
    define r where "r = half_up c d"
    have d: "0 < d" by (simp add: d_def)
    have pow: "(10::rat) ^ e = 10 ^ dp * of_int d"
      using False by (simp add: d_def power_add [symmetric])
    have "big_value (round_big dp x) - big_value x = of_int r / 10 ^ dp - of_int c / 10 ^ e"
      using False Big by (simp add: r_def d_def)
    also have "\<dots> = of_int (r * d - c) / (10 ^ dp * of_int d)"
      using d by (simp add: pow field_simps)
    finally have "\<bar>big_value (round_big dp x) - big_value x\<bar> =
        of_int \<bar>r * d - c\<bar> / (10 ^ dp * of_int d)"
      using d by (simp add: abs_divide abs_mult)
    also have "\<dots> \<le> (of_int d / 2) / (10 ^ dp * of_int d)"
    proof (rule divide_right_mono)
      have "2 * \<bar>r * d - c\<bar> \<le> d" unfolding r_def using d by (rule half_up_error)
      then have "(of_int (2 * \<bar>r * d - c\<bar>) :: rat) \<le> of_int d" by (simp only: of_int_le_iff)
      then show "(of_int \<bar>r * d - c\<bar> :: rat) \<le> of_int d / 2" by simp
      show "(0::rat) \<le> 10 ^ dp * of_int d" using d by simp
    qed
    also have "\<dots> = 1 / (2 * 10 ^ dp)" using d by simp
    finally show ?thesis .
  qed
qed

lemma round_big_places: "\<exists>k::int. big_value (round_big dp x) = of_int k / 10 ^ dp"
proof (cases x)
  case (Big c e)
  show ?thesis
  proof (cases "e \<le> dp")
    case True
    then have "(10::rat) ^ dp = 10 ^ e * 10 ^ (dp - e)"
      by (simp add: power_add [symmetric])
    then have "big_value (round_big dp x) = of_int (c * 10 ^ (dp - e)) / 10 ^ dp"
      using True Big by simp
    then show ?thesis by blast
  next
    case False
    with Big show ?thesis by auto
  qed
qed

lemma digit_val_digit_char: "digit_val (digit_char d) = Some (d mod 10)"
proof -
  define k where "k = d mod 10"
  have "k < 10" by (simp add: k_def)
  then consider "k = 0" | "k = 1" | "k = 2" | "k = 3" | "k = 4" | "k = 5" | "k = 6" | "k = 7"
    | "k = 8" | "k = 9"
    by atomize_elim arith
  then have "digit_val (''0123456789'' ! k) = Some k"
    by cases simp_all
  then show ?thesis by (simp add: digit_char_def k_def)
qed

lemma digit_val_not_sign: "digit_val c = Some d \<Longrightarrow> c \<noteq> CHR ''.'' \<and> c \<noteq> CHR ''-''"
  by (auto split: if_splits)

declare digit_val.simps [simp del]

lemma show_nat_digits: "c \<in> set (show_nat n) \<Longrightarrow> \<exists>d. digit_val c = Some d"
proof (induction n rule: show_nat.induct)
  case (1 n)
  then show ?case
    by (subst (asm) show_nat.simps) (auto simp: digit_val_digit_char split: if_splits)
qed

lemma show_nat_not_empty: "show_nat n \<noteq> []"
  by (subst show_nat.simps) simp

lemma parse_digits_append:
  "parse_digits (xs @ ys) acc =
     (case parse_digits xs acc of None \<Rightarrow> None | Some a \<Rightarrow> parse_digits ys a)"
  by (induction xs arbitrary: acc) (auto split: option.splits)

lemma parse_digits_show_nat:
  "parse_digits (show_nat n) acc = Some (acc * 10 ^ length (show_nat n) + n)"
proof (induction n arbitrary: acc rule: show_nat.induct)
  case (1 n)
  show ?case
  proof (cases "n < 10")
    case True
    then show ?thesis
      by (subst (1 2) show_nat.simps) (simp add: digit_val_digit_char)
  next
    case False
    with 1 have ih: "parse_digits (show_nat (n div 10)) acc =
        Some (acc * 10 ^ length (show_nat (n div 10)) + n div 10)"
      by simp
    from False show ?thesis
      by (subst (1 2) show_nat.simps)
        (simp add: parse_digits_append ih digit_val_digit_char algebra_simps)
  qed
qed

lemma length_show_nat: "0 < e \<Longrightarrow> n < 10 ^ e \<Longrightarrow> length (show_nat n) \<le> e"
proof (induction n arbitrary: e rule: show_nat.induct)
  case (1 n)
  show ?case
  proof (cases "n < 10")
    case True
    with 1(2) show ?thesis by (subst show_nat.simps) simp
  next
    case False
    obtain e' where e: "e = Suc e'" using 1(2) by (cases e) auto
    with False 1(3) have "0 < e'" by (cases e') auto
    moreover from 1(3) e have "n div 10 < 10 ^ e'"
      by (simp add: less_mult_imp_div_less mult.commute)
    ultimately have "length (show_nat (n div 10)) \<le> e'"
      using 1(1) False by simp
    with False e show ?thesis by (subst show_nat.simps) simp
  qed
qed

lemma parse_digits_zeros: "parse_digits (replicate k CHR ''0'' @ s) 0 = parse_digits s 0"
  by (induction k) (simp_all add: digit_val.simps)

lemma parse_digits_pad_left:
  assumes "0 < e" and "n < 10 ^ e"
  shows "parse_digits (pad_left e (show_nat n)) 0 = Some n"
    and "length (pad_left e (show_nat n)) = e"
  using length_show_nat [OF assms]
  by (simp_all add: pad_left_def parse_digits_zeros parse_digits_show_nat)

lemma split_at_point:
  assumes "\<forall>c \<in> set xs. c \<noteq> CHR ''.''"
  shows "takeWhile (\<lambda>c. c \<noteq> CHR ''.'') (xs @ CHR ''.'' # ys) = xs"
    and "dropWhile (\<lambda>c. c \<noteq> CHR ''.'') (xs @ CHR ''.'' # ys) = CHR ''.'' # ys"
    and "takeWhile (\<lambda>c. c \<noteq> CHR ''.'') xs = xs"
    and "dropWhile (\<lambda>c. c \<noteq> CHR ''.'') xs = []"
  using assms by (simp_all add: takeWhile_append2 dropWhile_append2)

lemma show_nat_no_point: "\<forall>c \<in> set (show_nat n). c \<noteq> CHR ''.''"
  using show_nat_digits digit_val_not_sign by blast

lemma unsigned_value_integer: "unsigned_value (show_nat a) = Some (of_nat a)"
  by (simp add: unsigned_value_def split_at_point [OF show_nat_no_point] show_nat_not_empty
      parse_digits_show_nat)

lemma unsigned_value_fraction:
  assumes "0 < e" and "b < 10 ^ e"
  shows "unsigned_value (show_nat a @ CHR ''.'' # pad_left e (show_nat b)) =
     Some (of_nat a + of_nat b / 10 ^ e)"
proof -
  have "pad_left e (show_nat b) \<noteq> []"
    using parse_digits_pad_left(2) [OF assms] assms(1) by auto
  then show ?thesis
    by (simp add: unsigned_value_def split_at_point [OF show_nat_no_point] show_nat_not_empty
        parse_digits_show_nat parse_digits_pad_left [OF assms])
qed

lemma strip_zeros_value:
  "strip_zeros c e = (c', e') \<Longrightarrow>
   (of_int c' :: rat) / 10 ^ e' = of_int c / 10 ^ e \<and> (c' < 0) = (c < 0)"
proof (induction c e rule: strip_zeros.induct)
  case (1 c)
  then show ?case by simp
next
  case (2 c e)
  show ?case
  proof (cases "c mod 10 = 0")
    case True
    then have c: "c = 10 * (c div 10)" by presburger
    from True 2 have "(of_int c' :: rat) / 10 ^ e' = of_int (c div 10) / 10 ^ e"
      and "(c' < 0) = (c div 10 < 0)"
      by simp_all
    moreover have "(of_int (c div 10) :: rat) / 10 ^ e = of_int c / 10 ^ Suc e"
      by (subst (2) c) simp
    moreover have "(c div 10 < 0) = (c < 0)" by presburger
    ultimately show ?thesis by simp
  next
    case False
    with 2 show ?thesis by simp
  qed
qed

lemma decimal_value_digits:
  assumes "s \<noteq> []" and "\<forall>c \<in> set (take 1 s). c \<noteq> CHR ''-''"
  shows "decimal_value s = unsigned_value s"
  using assms by (cases s) auto

text \<open>What \<open>toString_big\<close> prints denotes the number printed.\<close>

lemma decimal_value_toString_big: "decimal_value (toString_big x) = Some (big_value x)"
proof (cases x)
  case (Big c e)
  obtain c' e' where s: "strip_zeros c e = (c', e')" by (cases "strip_zeros c e")
  then have v: "(of_int c' :: rat) / 10 ^ e' = of_int c / 10 ^ e"
    using strip_zeros_value by blast
  define a where "a = nat \<bar>c'\<bar>"
  define body where "body = show_nat (a div 10 ^ e')
      @ (if e' = 0 then '''' else ''.'' @ pad_left e' (show_nat (a mod 10 ^ e')))"
  have whole: "toString_big x = (if c' < 0 then ''-'' else '''') @ body"
    by (simp add: Big toString_big_def s body_def a_def)
  have bv: "big_value x = of_int c / 10 ^ e" by (simp add: Big)
  have "(of_nat a :: rat) = of_nat (a div 10 ^ e' * 10 ^ e' + a mod 10 ^ e')"
    by (simp only: div_mult_mod_eq)
  also have "\<dots> = of_nat (a div 10 ^ e') * 10 ^ e' + of_nat (a mod 10 ^ e')"
    by simp
  finally have split: "(of_nat a :: rat) / 10 ^ e' =
      of_nat (a div 10 ^ e') + of_nat (a mod 10 ^ e') / 10 ^ e'"
    by (simp add: add_divide_distrib)
  have body: "unsigned_value body = Some (of_nat a / 10 ^ e')"
  proof (cases "e' = 0")
    case True
    then show ?thesis by (simp add: body_def unsigned_value_integer)
  next
    case False
    then show ?thesis
      by (simp add: body_def unsigned_value_fraction split)
  qed
  have first: "body \<noteq> []" "\<forall>ch \<in> set (take 1 body). ch \<noteq> CHR ''-''"
  proof -
    obtain d ds where "show_nat (a div 10 ^ e') = d # ds"
      using show_nat_not_empty by (cases "show_nat (a div 10 ^ e')") auto
    moreover from this have "d \<noteq> CHR ''-''"
      using show_nat_digits [of d "a div 10 ^ e'"] digit_val_not_sign by auto
    ultimately show "body \<noteq> []" "\<forall>ch \<in> set (take 1 body). ch \<noteq> CHR ''-''"
      by (simp_all add: body_def)
  qed
  show ?thesis
  proof (cases "c' < 0")
    case True
    then have "(of_int c' :: rat) = - of_nat a" by (simp add: a_def)
    with True body v show ?thesis
      by (simp add: whole bv)
  next
    case False
    then have "(of_int c' :: rat) = of_nat a" by (simp add: a_def)
    with False body v show ?thesis
      by (simp add: whole bv decimal_value_digits [OF first])
  qed
qed

lemma strip_zeros_shape:
  "strip_zeros c e = (c', e') \<Longrightarrow> e' \<le> e \<and> (e' = 0 \<or> c' mod 10 \<noteq> 0)"
proof (induction c e rule: strip_zeros.induct)
  case (1 c)
  then show ?case by simp
next
  case (2 c e)
  then show ?case by (cases "c mod 10 = 0") auto
qed

lemma last_show_nat: "last (show_nat n) = digit_char (n mod 10)"
  by (subst show_nat.simps) simp

lemma digit_char_zero: "(digit_char k = CHR ''0'') = (k mod 10 = 0)"
proof -
  define j where "j = k mod 10"
  have "j < 10" by (simp add: j_def)
  then consider "j = 0" | "j = 1" | "j = 2" | "j = 3" | "j = 4" | "j = 5" | "j = 6" | "j = 7"
    | "j = 8" | "j = 9"
    by atomize_elim arith
  then have "(''0123456789'' ! j = CHR ''0'') = (j = 0)"
    by cases simp_all
  then show ?thesis by (simp add: digit_char_def j_def)
qed

text \<open>
  \<open>toString_big\<close> never pads: a string with a decimal point does not end in a zero.
  After \<open>round_big dp\<close> at most \<open>dp\<close> digits follow the point.
\<close>

lemma toString_big_no_trailing_zero:
  "CHR ''.'' \<in> set (toString_big x) \<Longrightarrow> last (toString_big x) \<noteq> CHR ''0''"
proof (cases x)
  case (Big c e)
  obtain c' e' where s: "strip_zeros c e = (c', e')" by (cases "strip_zeros c e")
  assume point: "CHR ''.'' \<in> set (toString_big x)"
  have "e' \<noteq> 0"
  proof
    assume "e' = 0"
    with point show False
      using show_nat_no_point by (auto simp: Big toString_big_def s split: if_splits)
  qed
  have c': "c' mod 10 \<noteq> 0" using strip_zeros_shape [OF s] \<open>e' \<noteq> 0\<close> by simp
  define fp where "fp = nat \<bar>c'\<bar> mod 10 ^ e'"
  have "fp mod 10 = nat \<bar>c'\<bar> mod 10"
    using \<open>e' \<noteq> 0\<close> by (cases e') (simp_all add: fp_def mod_mod_cancel)
  also have "\<dots> \<noteq> 0"
  proof -
    have "\<bar>c'\<bar> mod 10 \<noteq> 0" using c' by (simp add: mod_eq_0_iff_dvd)
    then have "int (nat \<bar>c'\<bar> mod 10) \<noteq> 0" by (simp add: zmod_int)
    then show ?thesis by simp
  qed
  finally have "last (show_nat fp) \<noteq> CHR ''0''"
    by (simp add: last_show_nat digit_char_zero)
  then have "last (pad_left e' (show_nat fp)) \<noteq> CHR ''0''"
    by (simp add: pad_left_def show_nat_not_empty)
  moreover have "pad_left e' (show_nat fp) \<noteq> []"
    by (simp add: pad_left_def show_nat_not_empty)
  ultimately show ?thesis
    using \<open>e' \<noteq> 0\<close> by (simp add: Big toString_big_def s fp_def)
qed

lemma toString_big_round_big_places:
  "length (dropWhile (\<lambda>c. c \<noteq> CHR ''.'') (toString_big (round_big dp x))) \<le> Suc dp"
proof -
  obtain c e where r: "round_big dp x = Big c e" by (cases "round_big dp x")
  have "e \<le> dp" using r by (cases x) (auto split: if_splits)
  obtain c' e' where s: "strip_zeros c e = (c', e')" by (cases "strip_zeros c e")
  with \<open>e \<le> dp\<close> have e': "e' \<le> dp" using strip_zeros_shape by fastforce
  define a where "a = nat \<bar>c'\<bar>"
  have sign: "\<forall>ch \<in> set ((if c' < 0 then ''-'' else '''') @ show_nat (a div 10 ^ e')).
      ch \<noteq> CHR ''.''"
    using show_nat_no_point by auto
  show ?thesis
  proof (cases "e' = 0")
    case True
    then have eq: "toString_big (Big c e) =
        (if c' < 0 then ''-'' else '''') @ show_nat (a div 10 ^ e')"
      by (simp add: toString_big_def s a_def)
    have "dropWhile (\<lambda>c. c \<noteq> CHR ''.'') (toString_big (Big c e)) = []"
      unfolding eq using sign by (rule split_at_point(4))
    then show ?thesis unfolding r by (simp del: dropWhile_eq_Nil_conv)
  next
    case False
    then have len: "length (pad_left e' (show_nat (a mod 10 ^ e'))) = e'"
      by (intro parse_digits_pad_left(2)) simp_all
    from False have "toString_big (Big c e) =
        ((if c' < 0 then ''-'' else '''') @ show_nat (a div 10 ^ e'))
        @ CHR ''.'' # pad_left e' (show_nat (a mod 10 ^ e'))"
      by (simp add: toString_big_def s a_def)
    then have "dropWhile (\<lambda>c. c \<noteq> CHR ''.'') (toString_big (Big c e)) =
        CHR ''.'' # pad_left e' (show_nat (a mod 10 ^ e'))"
      using sign by (simp only: split_at_point(2))
    with len e' show ?thesis by (simp add: r)
  qed
qed

lemma getBalanceSaga_resolved:
  assumes "siad (Uri ''/wallet'') = Inr response"
    and "get response ''confirmedsiacoinbalance'' = Inr cv"
    and "hastingsToSiacoins cv = Inr confirmed"
    and "get response ''unconfirmedincomingsiacoins'' = Inr iv"
    and "hastingsToSiacoins iv = Inr unconfirmedIncoming"
    and "get response ''unconfirmedoutgoingsiacoins'' = Inr ov"
    and "hastingsToSiacoins ov = Inr unconfirmedOutgoing"
    and "get response ''siafundbalance'' = Inr siafunds"
  shows "run siad (getBalanceSaga hastingsToSiacoins) incoming =
     ([Requested (Uri ''/wallet''),
       Dispatched (setBalance
         (JStr (toString_big (round_big 2 confirmed)))
         (JStr (toString_big (round_big 2 (minus_big unconfirmedIncoming unconfirmedOutgoing))))
         siafunds)], Completed)"
  using assms
  by (simp add: getBalanceSaga_def try_yield_def try_eval_def Let_def
      del: round_big.simps minus_big.simps)

lemma rounded_string:
  "\<exists>v. decimal_value (toString_big (round_big 2 x)) = Some v
       \<and> \<bar>v - big_value x\<bar> \<le> 1 / 200 \<and> (\<exists>k::int. v = of_int k / 100)"
  using round_big_error [of 2 x] round_big_places [of 2 x]
  by (simp add: decimal_value_toString_big)

lemma SiaAPI_hastingsToSiacoins_recognised:
  "integer_amount v = Some n \<Longrightarrow> SiaAPI_hastingsToSiacoins other v = Inr (Big n 24)"
  by (simp add: SiaAPI_hastingsToSiacoins_def)

lemma integer_amount_example:
  "integer_amount (JNum 2500000000000000000000000) = Some 2500000000000000000000000"
  "integer_amount (JNum 0) = Some 0"
  by (simp_all add: significant_digits_def MAX_SAFE_INTEGER_def show_nat.simps digit_char_def)

lemma SiaAPI_hastingsToSiacoins_example:
  "SiaAPI_hastingsToSiacoins other (JNum 2500000000000000000000000) =
     Inr (Big 2500000000000000000000000 24)"
  "SiaAPI_hastingsToSiacoins other (JNum 0) = Inr (Big 0 24)"
  by (rule SiaAPI_hastingsToSiacoins_recognised, rule integer_amount_example)+

lemma getBalanceSaga_example:
  "run (\<lambda>_. Inr example_wallet) (getBalanceSaga (SiaAPI_hastingsToSiacoins other)) incoming =
     ([Requested (Uri ''/wallet''),
       Dispatched (setBalance (JStr ''2.5'') (JStr ''0'') (JNum 10))], Completed)"
proof -
  have "run (\<lambda>_. Inr example_wallet) (getBalanceSaga (SiaAPI_hastingsToSiacoins other)) incoming =
     ([Requested (Uri ''/wallet''),
       Dispatched (setBalance
         (JStr (toString_big (round_big 2 (Big 2500000000000000000000000 24))))
         (JStr (toString_big (round_big 2 (minus_big (Big 0 24) (Big 0 24)))))
         (JNum 10))], Completed)"
    by (rule getBalanceSaga_resolved
          [where response = example_wallet,
           OF _ _ SiaAPI_hastingsToSiacoins_example(1) _ SiaAPI_hastingsToSiacoins_example(2)
              _ SiaAPI_hastingsToSiacoins_example(2)])
      (simp_all add: example_wallet_def)
  then show ?thesis by (simp add: big_eval)
qed

text \<open>
  C4, as the code has it. On a reply whose three balances
  \<^verbatim>\<open>SiaAPI.hastingsToSiacoins\<close> converts, whatever that conversion is,
  \<^verbatim>\<open>getBalanceSaga\<close> dispatches one \<^verbatim>\<open>setBalance\<close>. Its first two arguments are
  decimal strings: the first denotes the converted confirmed balance, the second the
  converted incoming balance minus the converted outgoing one, each rounded to the
  nearest hundredth; each has at most two digits after the point and is not padded with
  zeros. Its third argument is \<^verbatim>\<open>response.siafundbalance\<close> as it came.
\<close>

theorem getBalanceSaga_rounded_decimal_strings:
  assumes "siad (Uri ''/wallet'') = Inr response"
    and "get response ''confirmedsiacoinbalance'' = Inr cv"
    and "hastingsToSiacoins cv = Inr confirmed"
    and "get response ''unconfirmedincomingsiacoins'' = Inr iv"
    and "hastingsToSiacoins iv = Inr unconfirmedIncoming"
    and "get response ''unconfirmedoutgoingsiacoins'' = Inr ov"
    and "hastingsToSiacoins ov = Inr unconfirmedOutgoing"
    and "get response ''siafundbalance'' = Inr siafunds"
  shows "\<exists>confirmed_string unconfirmed_string.
       run siad (getBalanceSaga hastingsToSiacoins) incoming =
         ([Requested (Uri ''/wallet''),
           Dispatched (setBalance (JStr confirmed_string) (JStr unconfirmed_string) siafunds)],
          Completed)
     \<and> (\<exists>v. decimal_value confirmed_string = Some v
            \<and> \<bar>v - big_value confirmed\<bar> \<le> 1 / 200 \<and> (\<exists>k::int. v = of_int k / 100))
     \<and> (\<exists>v. decimal_value unconfirmed_string = Some v
            \<and> \<bar>v - (big_value unconfirmedIncoming - big_value unconfirmedOutgoing)\<bar> \<le> 1 / 200
            \<and> (\<exists>k::int. v = of_int k / 100))
     \<and> length (dropWhile (\<lambda>ch. ch \<noteq> CHR ''.'') confirmed_string) \<le> 3
     \<and> length (dropWhile (\<lambda>ch. ch \<noteq> CHR ''.'') unconfirmed_string) \<le> 3
     \<and> (CHR ''.'' \<in> set confirmed_string \<longrightarrow> last confirmed_string \<noteq> CHR ''0'')
     \<and> (CHR ''.'' \<in> set unconfirmed_string \<longrightarrow> last unconfirmed_string \<noteq> CHR ''0'')"
proof -
  let ?confirmed = "toString_big (round_big 2 confirmed)"
  let ?unconfirmed =
    "toString_big (round_big 2 (minus_big unconfirmedIncoming unconfirmedOutgoing))"
  have trace: "run siad (getBalanceSaga hastingsToSiacoins) incoming =
         ([Requested (Uri ''/wallet''),
           Dispatched (setBalance (JStr ?confirmed) (JStr ?unconfirmed) siafunds)], Completed)"
    using assms by (rule getBalanceSaga_resolved)
  have confirmed: "\<exists>v. decimal_value ?confirmed = Some v
            \<and> \<bar>v - big_value confirmed\<bar> \<le> 1 / 200 \<and> (\<exists>k::int. v = of_int k / 100)"
    by (rule rounded_string)
  have unconfirmed: "\<exists>v. decimal_value ?unconfirmed = Some v
            \<and> \<bar>v - (big_value unconfirmedIncoming - big_value unconfirmedOutgoing)\<bar> \<le> 1 / 200
            \<and> (\<exists>k::int. v = of_int k / 100)"
    using rounded_string [of "minus_big unconfirmedIncoming unconfirmedOutgoing"]
    by (simp only: big_value_minus_big)
  have places: "length (dropWhile (\<lambda>ch. ch \<noteq> CHR ''.'') ?confirmed) \<le> 3"
    "length (dropWhile (\<lambda>ch. ch \<noteq> CHR ''.'') ?unconfirmed) \<le> 3"
    using toString_big_round_big_places [of 2 confirmed]
      toString_big_round_big_places [of 2 "minus_big unconfirmedIncoming unconfirmedOutgoing"]
    by simp_all
  have unpadded: "CHR ''.'' \<in> set ?confirmed \<longrightarrow> last ?confirmed \<noteq> CHR ''0''"
    "CHR ''.'' \<in> set ?unconfirmed \<longrightarrow> last ?unconfirmed \<noteq> CHR ''0''"
    using toString_big_no_trailing_zero by blast+
  show ?thesis
    by (rule exI [of _ ?confirmed], rule exI [of _ ?unconfirmed])
      (intro conjI trace confirmed unconfirmed places unpadded)
qed

theorem getBalanceSaga_rounded_decimal_strings_witness:
  "SiaAPI_hastingsToSiacoins Inl (JNum 2500000000000000000000000) =
     Inr (Big 2500000000000000000000000 24)
   \<and> SiaAPI_hastingsToSiacoins Inl (JNum 0) = Inr (Big 0 24)
   \<and> run (\<lambda>_. Inr example_wallet) (getBalanceSaga (SiaAPI_hastingsToSiacoins Inl)) [] =
     ([Requested (Uri ''/wallet''),
       Dispatched (setBalance (JStr ''2.5'') (JStr ''0'') (JNum 10))], Completed)
   \<and> decimal_value ''2.5'' = Some (5 / 2)"
  using getBalanceSaga_rounded_decimal_strings
    [of "\<lambda>_. Inr example_wallet" example_wallet "JNum 2500000000000000000000000"
        "SiaAPI_hastingsToSiacoins Inl" "Big 2500000000000000000000000 24"
        "JNum 0" "Big 0 24" "JNum 0" "Big 0 24" "JNum 10" "[]"]
  by (simp add: getBalanceSaga_example SiaAPI_hastingsToSiacoins_example unsigned_value_def
      digit_val.simps)

text \<open>
  C4 as stated fails at its own example: the strings are \<^verbatim>\<open>2.5\<close> and \<^verbatim>\<open>0\<close>, not
  \<^verbatim>\<open>2500.00\<close> and \<^verbatim>\<open>0.00\<close>. Both amounts of the example are recognised by
  \<open>integer_amount\<close>, so the run is the same whatever the conversion does elsewhere.
\<close>

theorem getBalanceSaga_example_is_not_padded:
  "fst (run (\<lambda>_. Inr example_wallet) (getBalanceSaga (SiaAPI_hastingsToSiacoins Inl)) []) =
     [Requested (Uri ''/wallet''),
      Dispatched (setBalance (JStr ''2.5'') (JStr ''0'') (JNum 10))]
   \<and> Dispatched (setBalance (JStr ''2500.00'') (JStr ''0.00'') (JNum 10))
       \<notin> set (fst (run (\<lambda>_. Inr example_wallet)
             (getBalanceSaga (SiaAPI_hastingsToSiacoins Inl)) []))"
  by (simp add: getBalanceSaga_example)

end
